theory Spec2Isabelle
  imports Main "HOL-Library.Word"
begin

section \<open>Authentication strategies of the HTTP ingester (HttpIngester/auth.go)\<close>

text \<open>
  A shallow embedding of \<^verbatim>\<open>src/HttpIngester/auth.go\<close>. Go strings are byte strings
  (\<open>string\<close>), a nil-able pointer is an \<open>option\<close>, a Go \<^verbatim>\<open>error\<close> result is
  an \<open>error option\<close> (\<open>None\<close> is nil), and a \<^verbatim>\<open>map[string]T\<close> is a partial function.
  Calls of the logger only write log lines and are left out of the model.
\<close>

subsection \<open>Constants and the configuration record\<close>

type_synonym authType = string

definition cookieName :: string where "cookieName = ''_gravauth''"
definition jwtName :: string where "jwtName = ''_gravjwt''"
definition defaultTokenName :: string where "defaultTokenName = ''Bearer''"

text \<open>The source's constant \<^verbatim>\<open>_none\<close> (the empty tag) is written \<open>u_none\<close>.\<close>

definition u_none :: authType where "u_none = ''''"
definition none :: authType where "none = ''none''"
definition basic :: authType where "basic = ''basic''"
definition jwtT :: authType where "jwtT = ''jwt''"
definition cookie :: authType where "cookie = ''cookie''"
definition preToken :: authType where "preToken = ''preshared-token''"
definition preParam :: authType where "preParam = ''preshared-parameter''"

definition userFormValue :: string where "userFormValue = ''username''"
definition passFormValue :: string where "passFormValue = ''password''"
definition issuer :: string where "issuer = ''gravwell''"

text \<open>
  \<^verbatim>\<open>jwtDuration = 24 * 2 * time.Hour\<close>: a \<^verbatim>\<open>time.Duration\<close> counts nanoseconds.
  \<^verbatim>\<open>int64(jwtDuration.Seconds())\<close> is the same span in whole seconds.
\<close>

definition time_Hour :: int where "time_Hour = 3600 * 1000000000"
definition jwtDuration :: int where "jwtDuration = 24 * 2 * time_Hour"
definition jwtDuration_Seconds :: int where "jwtDuration_Seconds = jwtDuration div 1000000000"

record auth =
  AuthType :: authType
  Username :: string
  Password :: string
  LoginURL :: string
  TokenName :: string
  TokenValue :: string

subsection \<open>Errors\<close>

text \<open>
  Every error value the file creates is one constructor; the comment gives the Go
  expression. Errors handed through from a library carry the library's text.
\<close>

datatype vflag =
    ValidationErrorMalformed
  | ValidationErrorUnverifiable
  | ValidationErrorSignatureInvalid
  | ValidationErrorExpired
  | ValidationErrorIssuedAt
  | ValidationErrorNotValidYet

datatype error =
    ErrInvalidAuthType                        \<comment> \<open>\<^verbatim>\<open>errors.New("Invalid authentication type")\<close>\<close>
  | ErrLoginURLRequired                       \<comment> \<open>\<^verbatim>\<open>errors.New("Authentication type requires a login URL")\<close>\<close>
  | ErrUnauthorized                           \<comment> \<open>\<^verbatim>\<open>errors.New("Unauthorized")\<close>, the package variable\<close>
  | ErrMissingTokenName                       \<comment> \<open>\<^verbatim>\<open>errors.New("Token name is invalid")\<close>\<close>
  | ErrMissingTokenValue                      \<comment> \<open>\<^verbatim>\<open>errors.New("Token value cannot be empty")\<close>\<close>
  | MissingUsername authType                  \<comment> \<open>\<^verbatim>\<open>"Missing username for %s authentication"\<close>\<close>
  | MissingPassword authType                  \<comment> \<open>\<^verbatim>\<open>"Missing password for %s authentication"\<close>\<close>
  | InvalidLoginURL string authType string    \<comment> \<open>\<^verbatim>\<open>"Invalid login url %s for %s authentication: %v"\<close>\<close>
  | MissingTokenValueFor authType             \<comment> \<open>\<^verbatim>\<open>"Missing Token-Value for auth type %s"\<close>\<close>
  | NilLogger                                 \<comment> \<open>\<^verbatim>\<open>errors.New("Nil logger")\<close>\<close>
  | UnknownAuthType authType                  \<comment> \<open>\<^verbatim>\<open>"Unknown authentication type %q"\<close>\<close>
  | MissingAuthentication                     \<comment> \<open>\<^verbatim>\<open>errors.New("Missing authentication")\<close>\<close>
  | BadUsernameOrPassword                     \<comment> \<open>\<^verbatim>\<open>errors.New("Bad username or password")\<close>\<close>
  | RandReadError string                      \<comment> \<open>the error of \<^verbatim>\<open>rand.Read\<close>\<close>
  | FailedRandomBuffer                        \<comment> \<open>\<^verbatim>\<open>errors.New("Failed to generate random buffer")\<close>\<close>
  | InvalidToken                              \<comment> \<open>\<^verbatim>\<open>errors.New("invalid token")\<close>\<close>
  | TokenExpired                              \<comment> \<open>\<^verbatim>\<open>errors.New("token expired")\<close>\<close>
  | UnexpectedSigningMethod                   \<comment> \<open>\<^verbatim>\<open>errors.New("Unexpected signing method")\<close>\<close>
  | ValidationError "vflag list" "error option" \<comment> \<open>\<^verbatim>\<open>*jwt.ValidationError\<close>: flags and inner error\<close>
  | EmptyUsername                             \<comment> \<open>\<^verbatim>\<open>errors.New("empty username")\<close>\<close>
  | EmptyPassword                             \<comment> \<open>\<^verbatim>\<open>errors.New("empty password")\<close>\<close>
  | ErrNoCookie                               \<comment> \<open>\<^verbatim>\<open>http.ErrNoCookie\<close>\<close>
  | InvalidCookie                             \<comment> \<open>\<^verbatim>\<open>fmt.Errorf("invalid cookie")\<close>\<close>
  | SessionExpired                            \<comment> \<open>\<^verbatim>\<open>errors.New("Session expired")\<close>\<close>
  | SessionUnauthorized                       \<comment> \<open>\<^verbatim>\<open>errors.New("Unauthorized")\<close> of the cookie handler\<close>
  | EmptyTokenName                            \<comment> \<open>\<^verbatim>\<open>fmt.Errorf("Empty token name")\<close>\<close>
  | InvalidAuthorizationTokenName             \<comment> \<open>\<^verbatim>\<open>errors.New("invalid authorization token name")\<close>\<close>
  | MissingAuthorizationHeader                \<comment> \<open>\<^verbatim>\<open>errors.New("Missing Authorization header value")\<close>\<close>
  | MissingParameter string                   \<comment> \<open>\<^verbatim>\<open>fmt.Errorf("Missing %s parameter", tokName)\<close>\<close>

subsection \<open>Library functions on strings\<close>

text \<open>
  \<^verbatim>\<open>strings.HasPrefix\<close> and \<^verbatim>\<open>strings.TrimPrefix\<close> on byte strings.
\<close>

definition strings_HasPrefix :: "string \<Rightarrow> string \<Rightarrow> bool" where
  "strings_HasPrefix s p = (length p \<le> length s \<and> take (length p) s = p)"

definition strings_TrimPrefix :: "string \<Rightarrow> string \<Rightarrow> string" where
  "strings_TrimPrefix s p = (if strings_HasPrefix s p then drop (length p) s else s)"

text \<open>
  \<^verbatim>\<open>strings.ToLower\<close> and \<^verbatim>\<open>strings.TrimSpace\<close>, on ASCII text: the letters
  \<^verbatim>\<open>A\<close> to \<^verbatim>\<open>Z\<close> are lowered, the six ASCII white-space bytes (tab, line feed,
  vertical tab, form feed, carriage return, space) are trimmed at both ends. Go also maps
  and trims code points beyond ASCII; bytes from 128 on are left as they are here, so the
  two functions stand for the library on ASCII input only.
\<close>

definition toLower_byte :: "char \<Rightarrow> char" where
  "toLower_byte c =
     (let n = (of_char c :: nat) in if 65 \<le> n \<and> n \<le> 90 then char_of (n + 32) else c)"

definition strings_ToLower :: "string \<Rightarrow> string" where
  "strings_ToLower s = map toLower_byte s"

definition isSpace_byte :: "char \<Rightarrow> bool" where
  "isSpace_byte c = (let n = (of_char c :: nat) in (9 \<le> n \<and> n \<le> 13) \<or> n = 32)"

definition strings_TrimSpace :: "string \<Rightarrow> string" where
  "strings_TrimSpace s = rev (dropWhile isSpace_byte (rev (dropWhile isSpace_byte s)))"

subsection \<open>Validation of a configuration\<close>

text \<open>
  \<^verbatim>\<open>(a *auth) Validate()\<close> has a pointer receiver and may write to the record, so the
  model returns the record too. \<open>url_Parse\<close> is \<^verbatim>\<open>net/url.Parse\<close> reduced to its error
  result (\<open>None\<close> when the text parses). The \<^verbatim>\<open>switch\<close> has no \<^verbatim>\<open>default\<close>:
  a tag that matches no case leaves both results at their zero values.
\<close>

definition Validate :: "(string \<Rightarrow> string option) \<Rightarrow> auth \<Rightarrow> auth \<times> bool \<times> error option" where
  "Validate url_Parse a =
     (if AuthType a = none then (a, False, None)
      else if AuthType a = basic then
        (if Username a = '''' then (a, False, Some (MissingUsername (AuthType a)))
         else if Password a = '''' then (a, False, Some (MissingPassword (AuthType a)))
         else (a, True, None))
      else if AuthType a = jwtT \<or> AuthType a = cookie then
        (if LoginURL a = '''' then (a, False, Some ErrLoginURLRequired)
         else case url_Parse (LoginURL a) of
           Some e \<Rightarrow> (a, False, Some (InvalidLoginURL (LoginURL a) (AuthType a) e))
         | None \<Rightarrow>
            (if Username a = '''' then (a, False, Some (MissingUsername (AuthType a)))
             else if Password a = '''' then (a, False, Some (MissingPassword (AuthType a)))
             else (a, True, None)))
      else if AuthType a = preToken \<or> AuthType a = preParam then
        (let a' = (if TokenName a = '''' then a\<lparr>TokenName := defaultTokenName\<rparr> else a)
         in if TokenValue a' = '''' then (a', False, Some (MissingTokenValueFor (AuthType a')))
            else (a', True, None))
      else (a, False, None))"

subsection \<open>Parsing the tag\<close>

definition parseAuthType :: "string \<Rightarrow> authType \<times> error option" where
  "parseAuthType v =
     (let r = strings_TrimSpace (strings_ToLower v)
      in if r = u_none then (none, None)
         else if r = none then (r, None)
         else if r = basic then (r, None)
         else if r = jwtT then (r, None)
         else if r = cookie then (r, None)
         else (none, Some ErrInvalidAuthType))"

subsection \<open>Random secrets\<close>

type_synonym byte = "8 word"

text \<open>
  \<^verbatim>\<open>base64.StdEncoding.EncodeToString\<close>: the standard alphabet of RFC 4648 with
  \<^verbatim>\<open>=\<close> padding. Three bytes make a 24-bit value whose four 6-bit groups index the
  alphabet; a rest of one or two bytes is padded to four characters.
\<close>

definition encodeStd :: string where
  "encodeStd = ''ABCDEFGHIJKLMNOPQRSTUVWXYZabcdefghijklmnopqrstuvwxyz0123456789+/''"

fun StdEncoding_EncodeToString :: "byte list \<Rightarrow> string" where
  "StdEncoding_EncodeToString (b0 # b1 # b2 # src) =
     (let val = unat b0 * 65536 + unat b1 * 256 + unat b2
      in encodeStd ! (val div 262144 mod 64) # encodeStd ! (val div 4096 mod 64) #
         encodeStd ! (val div 64 mod 64) # encodeStd ! (val mod 64) #
         StdEncoding_EncodeToString src)"
| "StdEncoding_EncodeToString [b0, b1] =
     (let val = unat b0 * 65536 + unat b1 * 256
      in [encodeStd ! (val div 262144 mod 64), encodeStd ! (val div 4096 mod 64),
          encodeStd ! (val div 64 mod 64), CHR ''=''])"
| "StdEncoding_EncodeToString [b0] =
     (let val = unat b0 * 65536
      in [encodeStd ! (val div 262144 mod 64), encodeStd ! (val div 4096 mod 64),
          CHR ''='', CHR ''=''])"
| "StdEncoding_EncodeToString [] = []"

text \<open>
  One call of \<^verbatim>\<open>rand.Read(buff)\<close>: the bytes it wrote, the count and the error it
  reported. \<open>randBase64\<close> allocates \<open>sz\<close> zero bytes, lets the reader overwrite a prefix
  of them, and encodes the whole buffer.
\<close>

record rand_Read =
  written :: "byte list"
  n_read :: int
  read_err :: "string option"

definition randBase64 :: "nat \<Rightarrow> rand_Read \<Rightarrow> error + string" where
  "randBase64 sz rd =
     (let buff = take sz (written rd @ replicate sz 0)
      in case read_err rd of
           Some e \<Rightarrow> Inl (RandReadError e)
         | None \<Rightarrow>
            if n_read rd \<noteq> int (length buff) then Inl FailedRandomBuffer
            else Inr (StdEncoding_EncodeToString buff))"

subsection \<open>Handlers and their constructors\<close>

text \<open>A \<^verbatim>\<open>*log.Logger\<close> is a pointer: \<open>None\<close> is nil, \<open>Some (Logger p)\<close> the logger at \<open>p\<close>.\<close>

datatype Logger = Logger nat

text \<open>A \<^verbatim>\<open>time.Time\<close> is an instant in nanoseconds; \<^verbatim>\<open>t.After(u)\<close> is \<open>u < t\<close>.\<close>

type_synonym time = int

definition time_After :: "time \<Rightarrow> time \<Rightarrow> bool" where
  "time_After t u = (u < t)"

definition time_Add :: "time \<Rightarrow> int \<Rightarrow> time" where
  "time_Add t d = t + d"

record basicAuthHandler =
  bah_lgr :: "Logger option"
  bah_user :: string
  bah_pass :: string

record tokHandler =
  lgr :: "Logger option"
  tokName :: string
  tokValue :: string

record jwtAuthHandler =
  jah_lgr :: "Logger option"
  secret :: string
  jah_user :: string
  jah_pass :: string

record cookieAuthHandler =
  cah_lgr :: "Logger option"
  cah_user :: string
  cah_pass :: string
  cookies :: "string \<rightharpoonup> time"

datatype authHandler =
    BasicAuthHandler basicAuthHandler
  | PreTokenHandler tokHandler
  | PreParamHandler tokHandler
  | JwtAuthHandler jwtAuthHandler
  | CookieAuthHandler cookieAuthHandler

definition newBasicAuthHandler :: "string \<Rightarrow> string \<Rightarrow> Logger option \<Rightarrow> authHandler option \<times> error option" where
  "newBasicAuthHandler user pass l =
     (Some (BasicAuthHandler \<lparr>bah_lgr = l, bah_user = user, bah_pass = pass\<rparr>), None)"

definition newPresharedTokenHandler :: "string \<Rightarrow> string \<Rightarrow> Logger option \<Rightarrow> authHandler option \<times> error option" where
  "newPresharedTokenHandler name val l =
     (if name = '''' then (None, Some ErrMissingTokenName)
      else if val = '''' then (None, Some ErrMissingTokenValue)
      else (Some (PreTokenHandler \<lparr>lgr = l, tokName = name, tokValue = val\<rparr>), None))"

definition newPresharedParamHandler :: "string \<Rightarrow> string \<Rightarrow> Logger option \<Rightarrow> authHandler option \<times> error option" where
  "newPresharedParamHandler name val l =
     (if name = '''' then (None, Some ErrMissingTokenName)
      else if val = '''' then (None, Some ErrMissingTokenValue)
      else (Some (PreParamHandler \<lparr>lgr = l, tokName = name, tokValue = val\<rparr>), None))"

definition newJWTAuthHandler :: "string \<Rightarrow> string \<Rightarrow> Logger option \<Rightarrow> rand_Read \<Rightarrow> authHandler option \<times> error option" where
  "newJWTAuthHandler user pass l rd =
     (case randBase64 32 rd of
        Inr s \<Rightarrow> (Some (JwtAuthHandler \<lparr>jah_lgr = l, secret = s, jah_user = user, jah_pass = pass\<rparr>), None)
      | Inl e \<Rightarrow> (None, Some e))"

definition newCookieAuthHandler :: "string \<Rightarrow> string \<Rightarrow> Logger option \<Rightarrow> authHandler option \<times> error option" where
  "newCookieAuthHandler user pass l =
     (if user = '''' then (None, Some EmptyUsername)
      else if pass = '''' then (None, Some EmptyPassword)
      else if l = None then (None, Some EmptyPassword)
      else (Some (CookieAuthHandler \<lparr>cah_lgr = l, cah_user = user, cah_pass = pass, cookies = Map.empty\<rparr>), None))"

text \<open>
  \<^verbatim>\<open>(a auth) NewAuthHandler(lgr)\<close> returns the login URL, the handler and the error.
  \<open>rd\<close> is the random draw the JWT constructor makes; no other branch reads it.
\<close>

definition NewAuthHandler :: "auth \<Rightarrow> Logger option \<Rightarrow> rand_Read \<Rightarrow> string \<times> authHandler option \<times> error option" where
  "NewAuthHandler a l rd =
     (if l = None then ('''', None, Some NilLogger)
      else if AuthType a = u_none then ('''', None, None)
      else if AuthType a = none then ('''', None, None)
      else if AuthType a = basic then
        (case newBasicAuthHandler (Username a) (Password a) l of (hnd, err) \<Rightarrow> ('''', hnd, err))
      else if AuthType a = jwtT then
        (case newJWTAuthHandler (Username a) (Password a) l rd of (hnd, err) \<Rightarrow> (LoginURL a, hnd, err))
      else if AuthType a = cookie then
        (case newCookieAuthHandler (Username a) (Password a) l of (hnd, err) \<Rightarrow> (LoginURL a, hnd, err))
      else if AuthType a = preToken then
        (case newPresharedTokenHandler (TokenName a) (TokenValue a) l of (hnd, err) \<Rightarrow> ('''', hnd, err))
      else if AuthType a = preParam then
        (case newPresharedParamHandler (TokenName a) (TokenValue a) l of (hnd, err) \<Rightarrow> ('''', hnd, err))
      else ('''', None, Some (UnknownAuthType (AuthType a))))"

subsection \<open>Requests and responses\<close>

text \<open>
  The parts of an \<^verbatim>\<open>*http.Request\<close> the handlers read, as the library hands them
  over: the header map (keys in canonical form), the parsed query of the URL
  (\<^verbatim>\<open>r.URL.Query()\<close>, a \<^verbatim>\<open>map[string][]string\<close>), the cookies of the request in
  the order they were sent (name and value), the error of \<^verbatim>\<open>r.ParseForm()\<close> and the
  form it fills.
\<close>

record Request =
  Header :: "string \<rightharpoonup> string list"
  URL_Query :: "string \<rightharpoonup> string list"
  Cookies :: "(string \<times> string) list"
  ParseForm :: "string option"
  Form :: "string \<rightharpoonup> string list"

text \<open>\<^verbatim>\<open>Header.Get\<close> and \<^verbatim>\<open>FormValue\<close>: the first value under the key, or the empty string.\<close>

definition Header_Get :: "Request \<Rightarrow> string \<Rightarrow> string" where
  "Header_Get r key = (case Header r key of None \<Rightarrow> '''' | Some [] \<Rightarrow> '''' | Some (v # _) \<Rightarrow> v)"

definition FormValue :: "Request \<Rightarrow> string \<Rightarrow> string" where
  "FormValue r key = (case Form r key of None \<Rightarrow> '''' | Some [] \<Rightarrow> '''' | Some (v # _) \<Rightarrow> v)"

text \<open>
  \<^verbatim>\<open>r.Cookie(name)\<close>: the value of the first cookie with that name, or
  \<^verbatim>\<open>http.ErrNoCookie\<close>. The cookie it returns is never nil when the error is nil.
\<close>

definition Request_Cookie :: "Request \<Rightarrow> string \<Rightarrow> error + string" where
  "Request_Cookie r name = (case map_of (Cookies r) name of None \<Rightarrow> Inl ErrNoCookie | Some v \<Rightarrow> Inr v)"

text \<open>
  An \<^verbatim>\<open>http.Cookie\<close> as \<open>Login\<close> fills it, and the \<^verbatim>\<open>http.ResponseWriter\<close>: the
  status of the first \<^verbatim>\<open>WriteHeader\<close>, the body written so far and the cookies passed
  to \<^verbatim>\<open>http.SetCookie\<close>.
\<close>

record http_Cookie =
  Name :: string
  Value :: string
  Expires :: time
  Path :: string

record ResponseWriter =
  status :: "nat option"
  body :: string
  set_cookies :: "http_Cookie list"

definition WriteHeader :: "ResponseWriter \<Rightarrow> nat \<Rightarrow> ResponseWriter" where
  "WriteHeader w code = (if status w = None then w\<lparr>status := Some code\<rparr> else w)"

definition io_WriteString :: "ResponseWriter \<Rightarrow> string \<Rightarrow> ResponseWriter" where
  "io_WriteString w s =
     w\<lparr>status := Some (case status w of None \<Rightarrow> 200 | Some c \<Rightarrow> c), body := body w @ s\<rparr>"

definition http_SetCookie :: "ResponseWriter \<Rightarrow> http_Cookie \<Rightarrow> ResponseWriter" where
  "http_SetCookie w c = w\<lparr>set_cookies := set_cookies w @ [c]\<rparr>"

definition StatusBadRequest :: nat where "StatusBadRequest = 400"
definition StatusForbidden :: nat where "StatusForbidden = 403"
definition StatusInternalServerError :: nat where "StatusInternalServerError = 500"

subsection \<open>Token extraction\<close>

definition getAuthToken :: "Request \<Rightarrow> string \<Rightarrow> error + string" where
  "getAuthToken r tn =
     (if tn = '''' then Inl EmptyTokenName
      else let prefix = tn @ '' ''; auth = Header_Get r ''Authorization''
           in if auth \<noteq> '''' then
                (if strings_HasPrefix auth prefix then Inr (strings_TrimPrefix auth prefix)
                 else Inl InvalidAuthorizationTokenName)
              else Inl MissingAuthorizationHeader)"

definition getJWTToken :: "Request \<Rightarrow> error + string" where
  "getJWTToken r = getAuthToken r ''Bearer''"

text \<open>The loop of \<open>getParamToken\<close>: the first key of non-zero length, the empty string if there is none.\<close>

fun firstNonEmpty :: "string list \<Rightarrow> string" where
  "firstNonEmpty [] = ''''"
| "firstNonEmpty (k # keys) = (if length k \<noteq> 0 then k else firstNonEmpty keys)"

definition getParamToken :: "Request \<Rightarrow> string \<Rightarrow> error + string" where
  "getParamToken r tn =
     (if tn = '''' then Inl EmptyTokenName
      else case URL_Query r tn of
             None \<Rightarrow> Inl (MissingParameter tn)
           | Some keys \<Rightarrow>
               if length keys = 0 then Inl (MissingParameter tn)
               else Inr (firstNonEmpty keys))"

subsection \<open>The preshared handlers\<close>

definition preTokenHandler_AuthRequest :: "tokHandler \<Rightarrow> Request \<Rightarrow> error option" where
  "preTokenHandler_AuthRequest pth r =
     (case getAuthToken r (tokName pth) of
        Inl err \<Rightarrow> Some err
      | Inr tok \<Rightarrow> if tok \<noteq> tokValue pth then Some ErrUnauthorized else None)"

definition preParamHandler_AuthRequest :: "tokHandler \<Rightarrow> Request \<Rightarrow> error option" where
  "preParamHandler_AuthRequest pth r =
     (case getParamToken r (tokName pth) of
        Inl err \<Rightarrow> Some err
      | Inr tok \<Rightarrow> if tok \<noteq> tokValue pth then Some ErrUnauthorized else None)"

subsection \<open>The cookie handler\<close>

text \<open>
  The sweep of \<open>Login\<close>, \<^verbatim>\<open>for k, v := range cah.cookies\<close>: \<open>ks\<close> is the order in
  which the runtime hands out the keys. A key that is no longer in the map is not
  visited; the body deletes the entry when \<open>now\<close> is after its expiry.
\<close>

fun sweep :: "time \<Rightarrow> string list \<Rightarrow> (string \<rightharpoonup> time) \<Rightarrow> (string \<rightharpoonup> time)" where
  "sweep now [] m = m"
| "sweep now (k # ks) m =
     sweep now ks (case m k of
                     None \<Rightarrow> m
                   | Some v \<Rightarrow> if time_After now v then m(k := None) else m)"

text \<open>
  \<open>Login\<close> reads the clock twice (\<open>now1\<close> for the expiry, \<open>now2\<close> for the sweep) and
  draws once from the random source. It returns the handler with its new session map and
  the response. \<^verbatim>\<open>UTC()\<close> keeps the instant.
\<close>

definition cookieAuthHandler_Login ::
  "cookieAuthHandler \<Rightarrow> ResponseWriter \<Rightarrow> Request \<Rightarrow> time \<Rightarrow> rand_Read \<Rightarrow> time \<Rightarrow> string list
     \<Rightarrow> cookieAuthHandler \<times> ResponseWriter" where
  "cookieAuthHandler_Login cah w r now1 rd now2 ks =
     (case ParseForm r of
        Some err \<Rightarrow> (cah, WriteHeader w StatusBadRequest)
      | None \<Rightarrow>
         let u = FormValue r userFormValue; p = FormValue r passFormValue
         in if u \<noteq> cah_user cah \<or> p \<noteq> cah_pass cah then (cah, WriteHeader w StatusForbidden)
            else let expires = time_Add now1 jwtDuration
                 in (case randBase64 32 rd of
                       Inl err \<Rightarrow> (cah, WriteHeader w StatusInternalServerError)
                     | Inr ck \<Rightarrow>
                         let m = (cookies cah)(ck \<mapsto> expires);
                             c = \<lparr>Name = cookieName, Value = ck, Expires = expires, Path = ''/''\<rparr>
                         in (cah\<lparr>cookies := sweep now2 ks m\<rparr>, http_SetCookie w c)))"

text \<open>\<open>AuthRequest\<close> reads the clock once (\<open>n\<close>) and may delete the probed entry.\<close>

definition cookieAuthHandler_AuthRequest ::
  "cookieAuthHandler \<Rightarrow> Request \<Rightarrow> time \<Rightarrow> cookieAuthHandler \<times> error option" where
  "cookieAuthHandler_AuthRequest cah r n =
     (case Request_Cookie r cookieName of
        Inl err \<Rightarrow> (cah, Some err)
      | Inr v \<Rightarrow>
         if v = '''' then (cah, Some InvalidCookie)
         else (case cookies cah v of
                 Some expires \<Rightarrow>
                   if time_After n expires
                   then (let m = (cookies cah)(v := None)
                         in (cah\<lparr>cookies := m\<rparr>, Some SessionExpired))
                   else (cah, None)
               | None \<Rightarrow> (cah, Some SessionUnauthorized)))"

subsection \<open>The JWT handler\<close>

text \<open>
  The token library (\<^verbatim>\<open>github.com/dgrijalva/jwt-go\<close>) is not part of the repository.
  Its data is modelled as the handler uses it, and the three operations that encode,
  decode and check signatures are parameters of the model:
  \<^item> \<open>SignedString m c key\<close> is \<^verbatim>\<open>jwt.NewWithClaims(m, c).SignedString(key)\<close>;
  \<^item> \<open>ParseUnverified s\<close> splits and decodes a token string into the token, the text
    that was signed and the signature;
  \<^item> \<open>Verify m signed sig key\<close> is \<^verbatim>\<open>m.Verify(signed, sig, key)\<close> without error.
  What the library's \<^verbatim>\<open>ParseWithClaims\<close> and \<^verbatim>\<open>StandardClaims.Valid\<close> do around
  them is written out. Unix seconds are \<^verbatim>\<open>int64\<close> in the source and \<open>int\<close> here:
  the clock stays far from the bounds of \<^verbatim>\<open>int64\<close>.
\<close>

datatype SigningMethod =
    SigningMethodHMAC string
  | SigningMethodRSA string
  | SigningMethodRSAPSS string
  | SigningMethodECDSA string
  | SigningMethodNone

definition SigningMethodHS256 :: SigningMethod where
  "SigningMethodHS256 = SigningMethodHMAC ''HS256''"

record StandardClaims =
  Audience :: string
  ExpiresAt :: int
  Id :: string
  IssuedAt :: int
  Issuer :: string
  NotBefore :: int
  Subject :: string

record Token =
  Raw :: string
  Method :: SigningMethod
  Claims :: StandardClaims
  Signature :: string
  Valid :: bool

record jwt_go =
  SignedString :: "SigningMethod \<Rightarrow> StandardClaims \<Rightarrow> string \<Rightarrow> error + string"
  ParseUnverified :: "string \<Rightarrow> error + (Token \<times> string \<times> string)"
  Verify :: "SigningMethod \<Rightarrow> string \<Rightarrow> string \<Rightarrow> string \<Rightarrow> bool"

text \<open>
  \<^verbatim>\<open>StandardClaims.Valid()\<close> at the clock reading \<open>now\<close>: a claim that is zero is
  not checked; the flags of the failed checks are collected.
\<close>

definition verifyExp :: "int \<Rightarrow> int \<Rightarrow> bool" where
  "verifyExp exp now = (if exp = 0 then True else now \<le> exp)"

definition verifyIat :: "int \<Rightarrow> int \<Rightarrow> bool" where
  "verifyIat iat now = (if iat = 0 then True else now \<ge> iat)"

definition verifyNbf :: "int \<Rightarrow> int \<Rightarrow> bool" where
  "verifyNbf nbf now = (if nbf = 0 then True else now \<ge> nbf)"

definition StandardClaims_flags :: "StandardClaims \<Rightarrow> int \<Rightarrow> vflag list" where
  "StandardClaims_flags c now =
     (if verifyExp (ExpiresAt c) now then [] else [ValidationErrorExpired]) @
     (if verifyIat (IssuedAt c) now then [] else [ValidationErrorIssuedAt]) @
     (if verifyNbf (NotBefore c) now then [] else [ValidationErrorNotValidYet])"

definition StandardClaims_Valid :: "StandardClaims \<Rightarrow> int \<Rightarrow> error option" where
  "StandardClaims_Valid c now =
     (let fl = StandardClaims_flags c now in if fl = [] then None else Some (ValidationError fl None))"

text \<open>
  \<^verbatim>\<open>jwt.ParseWithClaims(tokenString, &claims, keyFunc)\<close>: decode, ask \<open>keyFunc\<close> for
  the key, validate the claims at the library's clock reading \<open>now\<close>, verify the
  signature; the token is marked valid only when nothing failed.
\<close>

definition jwt_ParseWithClaims ::
  "jwt_go \<Rightarrow> string \<Rightarrow> (Token \<Rightarrow> error + string) \<Rightarrow> int \<Rightarrow> error + Token" where
  "jwt_ParseWithClaims lib tokenString keyFunc now =
     (case ParseUnverified lib tokenString of
        Inl err \<Rightarrow> Inl err
      | Inr (token, sstr, sig) \<Rightarrow>
         (case keyFunc token of
            Inl err \<Rightarrow> Inl (ValidationError [ValidationErrorUnverifiable] (Some err))
          | Inr key \<Rightarrow>
             let fl = StandardClaims_flags (Claims token) now @
                      (if Verify lib (Method token) sstr sig key then []
                       else [ValidationErrorSignatureInvalid])
             in if fl = [] then Inr (token\<lparr>Signature := sig, Valid := True\<rparr>)
                else Inl (ValidationError fl None)))"

record jwtClock =
  tParse :: int
  tNow :: int
  tValid1 :: int
  tValid2 :: int

definition secretParser :: "jwtAuthHandler \<Rightarrow> Token \<Rightarrow> error + string" where
  "secretParser bah token =
     (case Method token of
        SigningMethodHMAC alg \<Rightarrow> Inr (secret bah)
      | _ \<Rightarrow> Inl UnexpectedSigningMethod)"

text \<open>
  \<open>Login\<close> reads the clock once (\<open>now\<close>, Unix seconds). \<open>AuthRequest\<close> reads it four
  times: inside the library's parser (\<open>tParse\<close>), for \<^verbatim>\<open>t\<close> (\<open>tNow\<close>), and in
  the two calls of \<^verbatim>\<open>Valid()\<close>. \<^verbatim>\<open>tok.Claims\<close> and \<^verbatim>\<open>claims\<close> are the same
  object, the one the parser filled.
\<close>

definition jwtAuthHandler_Login ::
  "jwt_go \<Rightarrow> jwtAuthHandler \<Rightarrow> ResponseWriter \<Rightarrow> Request \<Rightarrow> int \<Rightarrow> ResponseWriter" where
  "jwtAuthHandler_Login lib jah w r now =
     (case ParseForm r of
        Some err \<Rightarrow> WriteHeader w StatusBadRequest
      | None \<Rightarrow>
         let u = FormValue r userFormValue; p = FormValue r passFormValue
         in if u \<noteq> jah_user jah \<or> p \<noteq> jah_pass jah then WriteHeader w StatusForbidden
            else let claims = \<lparr>Audience = '''', ExpiresAt = now + jwtDuration_Seconds, Id = '''',
                                IssuedAt = 0, Issuer = issuer, NotBefore = now, Subject = ''''\<rparr>
                 in (case SignedString lib SigningMethodHS256 claims (secret jah) of
                       Inl err \<Rightarrow> WriteHeader w StatusInternalServerError
                     | Inr ss \<Rightarrow> io_WriteString w ss))"

definition jwtAuthHandler_AuthRequest ::
  "jwt_go \<Rightarrow> jwtAuthHandler \<Rightarrow> Request \<Rightarrow> jwtClock \<Rightarrow> error option" where
  "jwtAuthHandler_AuthRequest lib bah r clk =
     (case getJWTToken r of
        Inl err \<Rightarrow> Some err
      | Inr ss \<Rightarrow>
         (case jwt_ParseWithClaims lib ss (secretParser bah) (tParse clk) of
            Inl err \<Rightarrow> Some err
          | Inr tok \<Rightarrow>
             let t = tNow clk; claims = Claims tok
             in if \<not> Valid tok then Some InvalidToken
                else (case StandardClaims_Valid (Claims tok) (tValid1 clk) of
                        Some err \<Rightarrow> Some err
                      | None \<Rightarrow>
                         (case StandardClaims_Valid claims (tValid2 clk) of
                            Some err \<Rightarrow> Some err
                          | None \<Rightarrow>
                             if Issuer claims \<noteq> issuer \<or> t < NotBefore claims \<or> t > ExpiresAt claims
                             then Some TokenExpired
                             else None))))"

subsection \<open>Alphabets of the session identifier\<close>

text \<open>
  The specification calls the encoding of the session identifier web-safe. Following
  the specification's words, \<open>webSafe\<close> holds of a text over the URL- and filename-safe
  alphabet of RFC 4648 (\<^verbatim>\<open>base64.URLEncoding\<close>: \<^verbatim>\<open>-\<close> and \<^verbatim>\<open>_\<close> in place of
  \<^verbatim>\<open>+\<close> and \<^verbatim>\<open>/\<close>) with its padding. \<open>stdAlphabet\<close> is the same for the standard
  alphabet the source encodes with.
\<close>

definition encodeURL :: string where
  "encodeURL = ''ABCDEFGHIJKLMNOPQRSTUVWXYZabcdefghijklmnopqrstuvwxyz0123456789-_''"

definition webSafe :: "string \<Rightarrow> bool" where
  "webSafe s = list_all (\<lambda>c. c \<in> set encodeURL \<or> c = CHR ''='') s"

definition stdAlphabet :: "string \<Rightarrow> bool" where
  "stdAlphabet s = list_all (\<lambda>c. c \<in> set encodeStd \<or> c = CHR ''='') s"

text \<open>The type assertion \<^verbatim>\<open>token.Method.(*jwt.SigningMethodHMAC)\<close> of \<open>secretParser\<close>.\<close>

definition isHMAC :: "SigningMethod \<Rightarrow> bool" where
  "isHMAC m = (case m of SigningMethodHMAC alg \<Rightarrow> True | _ \<Rightarrow> False)"

subsection \<open>Sample values\<close>

text \<open>
  Concrete handlers, requests and responses at which the theorems below are instantiated.
  \<open>sample_lib m\<close> is a toy token library: it signs with the key itself as signature,
  and decodes every token string to the method \<open>m\<close> and the claims \<open>sample_claims\<close>.
\<close>

definition sample_claims :: StandardClaims where
  "sample_claims = \<lparr>Audience = '''', ExpiresAt = 1000 + 172800, Id = '''', IssuedAt = 0,
                     Issuer = ''gravwell'', NotBefore = 1000, Subject = ''''\<rparr>"

definition sample_lib :: "SigningMethod \<Rightarrow> jwt_go" where
  "sample_lib m =
     \<lparr>SignedString = (\<lambda>m c key. Inr (''h.c.'' @ key)),
      ParseUnverified = (\<lambda>s. Inr (\<lparr>Raw = s, Method = m, Claims = sample_claims,
                                    Signature = '''', Valid = False\<rparr>, take 3 s, drop 4 s)),
      Verify = (\<lambda>m sstr sig key. sig = key)\<rparr>"

definition sample_jah :: jwtAuthHandler where
  "sample_jah = \<lparr>jah_lgr = Some (Logger 0), secret = ''k3y'', jah_user = ''admin'', jah_pass = ''hunter2''\<rparr>"

definition login_request :: Request where
  "login_request = \<lparr>Header = Map.empty, URL_Query = Map.empty, Cookies = [], ParseForm = None,
        Form = [''username'' \<mapsto> [''admin''], ''password'' \<mapsto> [''hunter2'']]\<rparr>"

definition bearer_request :: "string \<Rightarrow> Request" where
  "bearer_request v = \<lparr>Header = [''Authorization'' \<mapsto> [v]], URL_Query = Map.empty, Cookies = [],
        ParseForm = None, Form = Map.empty\<rparr>"

definition empty_response :: ResponseWriter where
  "empty_response = \<lparr>status = None, body = '''', set_cookies = []\<rparr>"

definition sample_cah :: cookieAuthHandler where
  "sample_cah = \<lparr>cah_lgr = Some (Logger 0), cah_user = ''admin'', cah_pass = ''hunter2'',
                  cookies = [''old'' \<mapsto> 50, ''live'' \<mapsto> 500]\<rparr>"

definition cookie_request :: "(string \<times> string) list \<Rightarrow> Request" where
  "cookie_request cs = \<lparr>Header = Map.empty, URL_Query = Map.empty, Cookies = cs,
        ParseForm = None, Form = Map.empty\<rparr>"

definition query_request :: "(string \<rightharpoonup> string list) \<Rightarrow> Request" where
  "query_request q = \<lparr>Header = Map.empty, URL_Query = q, Cookies = [],
        ParseForm = None, Form = Map.empty\<rparr>"

definition sample_pth :: tokHandler where
  "sample_pth = \<lparr>lgr = Some (Logger 0), tokName = ''token'', tokValue = ''s3cret''\<rparr>"

definition sample_draw :: rand_Read where
  "sample_draw = \<lparr>written = 255 # 0 # 0 # replicate 29 0, n_read = 32, read_err = None\<rparr>"

definition sample_id :: string where
  "sample_id = StdEncoding_EncodeToString (255 # 0 # 0 # replicate 29 0)"

definition sample_auth :: "authType \<Rightarrow> string \<Rightarrow> auth" where
  "sample_auth t tn = \<lparr>AuthType = t, Username = ''admin'', Password = ''hunter2'',
       LoginURL = ''/login'', TokenName = tn, TokenValue = ''s3cret''\<rparr>"

lemmas sample_defs = sample_claims_def sample_lib_def sample_jah_def login_request_def
  bearer_request_def empty_response_def

lemmas authType_defs = u_none_def none_def basic_def jwtT_def cookie_def preToken_def preParam_def

section \<open>Lemmas\<close>

subsection \<open>The encoding of random secrets\<close>

lemma length_encodeStd: "length encodeStd = 64"
  by (simp add: encodeStd_def)

lemma encodeStd_nth_mem: "encodeStd ! (i mod 64) \<in> set encodeStd"
  by (rule nth_mem) (simp add: length_encodeStd)

lemma length_EncodeToString:
  "length (StdEncoding_EncodeToString src) = 4 * ((length src + 2) div 3)"
proof (induction src rule: StdEncoding_EncodeToString.induct)
  case (1 b0 b1 b2 src)
  have "(length (b0 # b1 # b2 # src) + 2) div 3 = Suc ((length src + 2) div 3)"
    by simp
  with 1 show ?case
    by (simp add: Let_def)
qed (simp_all add: Let_def)

lemma stdAlphabet_EncodeToString: "stdAlphabet (StdEncoding_EncodeToString src)"
  by (induction src rule: StdEncoding_EncodeToString.induct)
     (simp_all add: Let_def stdAlphabet_def encodeStd_nth_mem)

lemma randBase64_Inr:
  "randBase64 sz rd = Inr s \<Longrightarrow>
     read_err rd = None \<and> n_read rd = int sz \<and>
     s = StdEncoding_EncodeToString (take sz (written rd @ replicate sz 0))"
  by (auto simp: randBase64_def Let_def split: option.splits if_splits)

lemma encodeStd_63: "encodeStd ! 63 = CHR ''/''"
  by (simp add: encodeStd_def)

lemma not_webSafe_slash: "\<not> webSafe (CHR ''/'' # s)"
  by (simp add: webSafe_def encodeURL_def)

lemma EncodeToString_slash: "StdEncoding_EncodeToString (255 # 0 # 0 # src) = CHR ''/'' # CHR ''w'' # CHR ''A'' # CHR ''A'' # StdEncoding_EncodeToString src"
  by (simp add: Let_def encodeStd_def)

lemma randBase64_sample:
  "randBase64 32 \<lparr>written = 255 # 0 # 0 # replicate 29 0, n_read = 32, read_err = None\<rparr> =
     Inr (StdEncoding_EncodeToString (255 # 0 # 0 # replicate 29 0))"
  by (simp add: randBase64_def Let_def del: StdEncoding_EncodeToString.simps)

subsection \<open>The sweep of the session map\<close>

lemma sweep_lookup:
  "sweep now ks m k =
     (case m k of None \<Rightarrow> None | Some v \<Rightarrow> if k \<in> set ks \<and> v < now then None else Some v)"
  by (induction ks arbitrary: m) (auto simp: time_After_def split: option.splits)

subsection \<open>Token extraction\<close>

lemma HasPrefix_iff: "strings_HasPrefix s p \<longleftrightarrow> (\<exists>rest. s = p @ rest)"
proof
  assume "strings_HasPrefix s p"
  then have "s = p @ drop (length p) s"
    by (metis strings_HasPrefix_def append_take_drop_id)
  then show "\<exists>rest. s = p @ rest" ..
next
  assume "\<exists>rest. s = p @ rest"
  then show "strings_HasPrefix s p"
    by (auto simp: strings_HasPrefix_def)
qed

lemma getAuthToken_prefix:
  "tn \<noteq> '''' \<Longrightarrow> Header_Get r ''Authorization'' = tn @ '' '' @ rest \<Longrightarrow> getAuthToken r tn = Inr rest"
  by (simp add: getAuthToken_def Let_def strings_HasPrefix_def strings_TrimPrefix_def)

lemma getAuthToken_no_prefix:
  "tn \<noteq> '''' \<Longrightarrow> \<not> (\<exists>rest. Header_Get r ''Authorization'' = tn @ '' '' @ rest) \<Longrightarrow>
     getAuthToken r tn = Inl MissingAuthorizationHeader \<or> getAuthToken r tn = Inl InvalidAuthorizationTokenName"
  using HasPrefix_iff [of "Header_Get r ''Authorization''" "tn @ '' ''"]
  by (auto simp: getAuthToken_def Let_def)

lemma firstNonEmpty_all_empty: "\<forall>k\<in>set keys. k = '''' \<Longrightarrow> firstNonEmpty keys = ''''"
  by (induction keys) auto

lemma firstNonEmpty_skip:
  "\<forall>k\<in>set pre. k = '''' \<Longrightarrow> k \<noteq> '''' \<Longrightarrow> firstNonEmpty (pre @ k # rest) = k"
  by (induction pre) auto

subsection \<open>The token parser\<close>

lemma secretParser_Inr: "secretParser bah tok = Inr key \<longleftrightarrow> isHMAC (Method tok) \<and> key = secret bah"
  by (auto simp: secretParser_def isHMAC_def split: SigningMethod.splits)

lemma StandardClaims_Valid_None: "StandardClaims_Valid c now = None \<longleftrightarrow> StandardClaims_flags c now = []"
  by (simp add: StandardClaims_Valid_def Let_def)

lemma StandardClaims_flags_Nil:
  "StandardClaims_flags c now = [] \<longleftrightarrow>
     (ExpiresAt c = 0 \<or> now \<le> ExpiresAt c) \<and> (IssuedAt c = 0 \<or> IssuedAt c \<le> now) \<and>
     (NotBefore c = 0 \<or> NotBefore c \<le> now)"
  by (auto simp: StandardClaims_flags_def verifyExp_def verifyIat_def verifyNbf_def)

lemma ParseWithClaims_Inr:
  assumes "ParseUnverified lib ss = Inr (tok, sstr, sig)"
  shows "jwt_ParseWithClaims lib ss (secretParser bah) now = Inr tok' \<longleftrightarrow>
           isHMAC (Method tok) \<and> Verify lib (Method tok) sstr sig (secret bah) \<and>
           StandardClaims_flags (Claims tok) now = [] \<and> tok' = tok\<lparr>Signature := sig, Valid := True\<rparr>"
proof (cases "secretParser bah tok")
  case (Inl e)
  then have "\<not> isHMAC (Method tok)"
    using secretParser_Inr [of bah tok] by auto
  with Inl assms show ?thesis
    by (simp add: jwt_ParseWithClaims_def)
next
  case (Inr key)
  then have "isHMAC (Method tok)" "key = secret bah"
    using secretParser_Inr [of bah tok key] by auto
  with Inr assms show ?thesis
    by (auto simp: jwt_ParseWithClaims_def Let_def)
qed

lemma jwt_AuthRequest_None_iff:
  assumes "getJWTToken r = Inr ss" and "ParseUnverified lib ss = Inr (tok, sstr, sig)"
  shows "jwtAuthHandler_AuthRequest lib bah r clk = None \<longleftrightarrow>
           isHMAC (Method tok) \<and> Verify lib (Method tok) sstr sig (secret bah) \<and>
           StandardClaims_flags (Claims tok) (tParse clk) = [] \<and>
           StandardClaims_flags (Claims tok) (tValid1 clk) = [] \<and>
           StandardClaims_flags (Claims tok) (tValid2 clk) = [] \<and>
           Issuer (Claims tok) = issuer \<and>
           NotBefore (Claims tok) \<le> tNow clk \<and> tNow clk \<le> ExpiresAt (Claims tok)"
proof (cases "jwt_ParseWithClaims lib ss (secretParser bah) (tParse clk)")
  case (Inl e)
  then have "\<not> (isHMAC (Method tok) \<and> Verify lib (Method tok) sstr sig (secret bah) \<and>
           StandardClaims_flags (Claims tok) (tParse clk) = [])"
    using ParseWithClaims_Inr [OF assms(2), of bah "tParse clk"] by auto
  with Inl assms(1) show ?thesis
    by (auto simp: jwtAuthHandler_AuthRequest_def)
next
  case (Inr tok')
  then have p: "isHMAC (Method tok)" "Verify lib (Method tok) sstr sig (secret bah)"
      "StandardClaims_flags (Claims tok) (tParse clk) = []" "tok' = tok\<lparr>Signature := sig, Valid := True\<rparr>"
    using ParseWithClaims_Inr [OF assms(2), of bah "tParse clk" tok'] by auto
  show ?thesis
    using Inr assms(1) p
    by (auto simp: jwtAuthHandler_AuthRequest_def Let_def StandardClaims_Valid_def split: option.splits)
qed

section \<open>The claims\<close>

text \<open>
  \<^bold>\<open>C1.\<close> \<open>AuthRequest\<close> of the cookie handler, for every handler, request and clock
  reading \<open>n\<close>: without a cookie named \<^verbatim>\<open>_gravauth\<close> the error is \<^verbatim>\<open>http.ErrNoCookie\<close>,
  with an empty one it is "invalid cookie"; an identifier \<open>v\<close> that is not in the session
  map gives "Unauthorized"; one in the map with an expiry before \<open>n\<close> is deleted from the
  map (nothing else changes) and gives "Session expired"; otherwise the result is nil and
  the handler is unchanged. After an expired identifier was probed, probing it again at
  any time \<open>n'\<close> gives "Unauthorized".
\<close>

theorem cookie_AuthRequest_spec:
  "(map_of (Cookies r) cookieName = None \<longrightarrow>
      cookieAuthHandler_AuthRequest cah r n = (cah, Some ErrNoCookie)) \<and>
   (map_of (Cookies r) cookieName = Some '''' \<longrightarrow>
      cookieAuthHandler_AuthRequest cah r n = (cah, Some InvalidCookie)) \<and>
   (map_of (Cookies r) cookieName = Some v \<and> v \<noteq> '''' \<and> cookies cah v = None \<longrightarrow>
      cookieAuthHandler_AuthRequest cah r n = (cah, Some SessionUnauthorized)) \<and>
   (map_of (Cookies r) cookieName = Some v \<and> v \<noteq> '''' \<and> cookies cah v = Some e \<and> e < n \<longrightarrow>
      cookieAuthHandler_AuthRequest cah r n = (cah\<lparr>cookies := (cookies cah)(v := None)\<rparr>, Some SessionExpired) \<and>
      cookieAuthHandler_AuthRequest (cah\<lparr>cookies := (cookies cah)(v := None)\<rparr>) r n' =
        (cah\<lparr>cookies := (cookies cah)(v := None)\<rparr>, Some SessionUnauthorized)) \<and>
   (map_of (Cookies r) cookieName = Some v \<and> v \<noteq> '''' \<and> cookies cah v = Some e \<and> \<not> e < n \<longrightarrow>
      cookieAuthHandler_AuthRequest cah r n = (cah, None))"
  by (simp add: cookieAuthHandler_AuthRequest_def Request_Cookie_def time_After_def Let_def)

text \<open>
  One request for each branch, and the second probe of the expired session \<open>old\<close>.
\<close>

theorem cookie_AuthRequest_spec_witness:
  "cookieAuthHandler_AuthRequest sample_cah (cookie_request []) 100 = (sample_cah, Some ErrNoCookie) \<and>
   cookieAuthHandler_AuthRequest sample_cah (cookie_request [(''_gravauth'', '''')]) 100 =
     (sample_cah, Some InvalidCookie) \<and>
   cookieAuthHandler_AuthRequest sample_cah (cookie_request [(''_gravauth'', ''nobody'')]) 100 =
     (sample_cah, Some SessionUnauthorized) \<and>
   snd (cookieAuthHandler_AuthRequest sample_cah (cookie_request [(''_gravauth'', ''old'')]) 100) =
     Some SessionExpired \<and>
   snd (cookieAuthHandler_AuthRequest
          (fst (cookieAuthHandler_AuthRequest sample_cah (cookie_request [(''_gravauth'', ''old'')]) 100))
          (cookie_request [(''_gravauth'', ''old'')]) 101) = Some SessionUnauthorized \<and>
   cookieAuthHandler_AuthRequest sample_cah (cookie_request [(''_gravauth'', ''live'')]) 100 =
     (sample_cah, None)"
  using cookie_AuthRequest_spec [where r = "cookie_request []" and cah = sample_cah and n = 100
      and v = "''old''" and e = 50 and n' = 101]
    cookie_AuthRequest_spec [where r = "cookie_request [(''_gravauth'', '''')]" and cah = sample_cah
      and n = 100 and v = "''old''" and e = 50 and n' = 101]
    cookie_AuthRequest_spec [where r = "cookie_request [(''_gravauth'', ''nobody'')]" and cah = sample_cah
      and n = 100 and v = "''nobody''" and e = 50 and n' = 101]
    cookie_AuthRequest_spec [where r = "cookie_request [(''_gravauth'', ''old'')]" and cah = sample_cah
      and n = 100 and v = "''old''" and e = 50 and n' = 101]
    cookie_AuthRequest_spec [where r = "cookie_request [(''_gravauth'', ''live'')]" and cah = sample_cah
      and n = 100 and v = "''live''" and e = 500 and n' = 101]
  by (simp add: cookie_request_def sample_cah_def cookieName_def)

text \<open>
  \<^bold>\<open>C2.\<close> Round trip of the JWT handler. The token library is a parameter; the theorem
  assumes of it that signing the minted claims with the handler's secret succeeds with a
  text \<open>ss\<close>, and that \<open>ss\<close> decodes to the same method and claims with a signature that
  verifies under that secret. Then \<open>Login\<close> with the configured user name and password
  writes \<open>ss\<close> as the body, with the claims issuer \<^verbatim>\<open>gravwell\<close>, not-before \<open>now\<close> and
  expiry \<open>now + 172800\<close> seconds (48 hours); \<open>AuthRequest\<close> on a request whose
  \<^verbatim>\<open>Authorization\<close> header is \<^verbatim>\<open>Bearer\<close>, a space and \<open>ss\<close> returns nil when every clock
  reading of the call lies within 48 hours of \<open>now\<close>, and an error when the handler's
  reading \<open>t\<close> is past \<open>now + 172800\<close>.
\<close>

theorem jwt_Login_AuthRequest_roundtrip:
  assumes form: "ParseForm r = None"
    and user: "FormValue r userFormValue = jah_user jah"
    and pass: "FormValue r passFormValue = jah_pass jah"
    and sign: "SignedString lib SigningMethodHS256
                 \<lparr>Audience = '''', ExpiresAt = now + 172800, Id = '''', IssuedAt = 0,
                  Issuer = ''gravwell'', NotBefore = now, Subject = ''''\<rparr> (secret jah) = Inr ss"
    and parse: "ParseUnverified lib ss = Inr (tok, sstr, sig)"
    and same: "Method tok = SigningMethodHS256"
              "Claims tok = \<lparr>Audience = '''', ExpiresAt = now + 172800, Id = '''', IssuedAt = 0,
                  Issuer = ''gravwell'', NotBefore = now, Subject = ''''\<rparr>"
    and verify: "Verify lib SigningMethodHS256 sstr sig (secret jah)"
    and bearer: "Header_Get r' ''Authorization'' = ''Bearer '' @ ss"
  shows "jwtAuthHandler_Login lib jah w r now = io_WriteString w ss \<and>
         body (jwtAuthHandler_Login lib jah w r now) = body w @ ss \<and>
         (now \<le> tParse clk \<and> tParse clk \<le> now + 172800 \<and>
          now \<le> tNow clk \<and> tNow clk \<le> now + 172800 \<and>
          now \<le> tValid1 clk \<and> tValid1 clk \<le> now + 172800 \<and>
          now \<le> tValid2 clk \<and> tValid2 clk \<le> now + 172800 \<longrightarrow>
            jwtAuthHandler_AuthRequest lib jah r' clk = None) \<and>
         (now + 172800 < tNow clk \<longrightarrow> jwtAuthHandler_AuthRequest lib jah r' clk \<noteq> None)"
proof -
  have login: "jwtAuthHandler_Login lib jah w r now = io_WriteString w ss"
    using form user pass sign
    by (simp add: jwtAuthHandler_Login_def Let_def jwtDuration_Seconds_def jwtDuration_def
          time_Hour_def issuer_def)
  have tok: "getJWTToken r' = Inr ss"
    unfolding getJWTToken_def using bearer getAuthToken_prefix [of "''Bearer''" r' ss] by simp
  note iff = jwt_AuthRequest_None_iff [OF tok parse, of jah clk]
  have hm: "isHMAC (Method tok)"
    by (simp add: same SigningMethodHS256_def isHMAC_def)
  have ok: "now \<le> tParse clk \<and> tParse clk \<le> now + 172800 \<and>
          now \<le> tNow clk \<and> tNow clk \<le> now + 172800 \<and>
          now \<le> tValid1 clk \<and> tValid1 clk \<le> now + 172800 \<and>
          now \<le> tValid2 clk \<and> tValid2 clk \<le> now + 172800 \<longrightarrow>
            jwtAuthHandler_AuthRequest lib jah r' clk = None"
    using iff hm verify by (auto simp: same StandardClaims_flags_Nil issuer_def)
  have late: "now + 172800 < tNow clk \<longrightarrow> jwtAuthHandler_AuthRequest lib jah r' clk \<noteq> None"
    using iff by (auto simp: same)
  show ?thesis
    using login ok late by (simp add: io_WriteString_def)
qed

text \<open>
  The round trip with the toy library: accepted up to the last second, rejected one second later.
\<close>

theorem jwt_Login_AuthRequest_roundtrip_witness:
  "body (jwtAuthHandler_Login (sample_lib SigningMethodHS256) sample_jah empty_response login_request 1000) = ''h.c.k3y'' \<and>
   jwtAuthHandler_AuthRequest (sample_lib SigningMethodHS256) sample_jah (bearer_request ''Bearer h.c.k3y'')
     \<lparr>tParse = 1000, tNow = 1001, tValid1 = 1002, tValid2 = 173800\<rparr> = None \<and>
   jwtAuthHandler_AuthRequest (sample_lib SigningMethodHS256) sample_jah (bearer_request ''Bearer h.c.k3y'')
     \<lparr>tParse = 1000, tNow = 173801, tValid1 = 1002, tValid2 = 1003\<rparr> \<noteq> None"
proof -
  let ?tok = "\<lparr>Raw = ''h.c.k3y'', Method = SigningMethodHS256, Claims = sample_claims,
                Signature = '''', Valid = False\<rparr>"
  have form: "ParseForm login_request = None"
    and user: "FormValue login_request userFormValue = jah_user sample_jah"
    and pass: "FormValue login_request passFormValue = jah_pass sample_jah"
    by (simp_all add: sample_defs FormValue_def userFormValue_def passFormValue_def)
  have sign: "SignedString (sample_lib SigningMethodHS256) SigningMethodHS256
                 \<lparr>Audience = '''', ExpiresAt = 1000 + 172800, Id = '''', IssuedAt = 0,
                  Issuer = ''gravwell'', NotBefore = 1000, Subject = ''''\<rparr> (secret sample_jah) = Inr ''h.c.k3y''"
    by (simp add: sample_defs)
  have parse: "ParseUnverified (sample_lib SigningMethodHS256) ''h.c.k3y'' = Inr (?tok, ''h.c'', ''k3y'')"
    by (simp add: sample_defs)
  have same: "Method ?tok = SigningMethodHS256"
      "Claims ?tok = \<lparr>Audience = '''', ExpiresAt = 1000 + 172800, Id = '''', IssuedAt = 0,
                  Issuer = ''gravwell'', NotBefore = 1000, Subject = ''''\<rparr>"
    by (simp_all add: sample_defs)
  have verify: "Verify (sample_lib SigningMethodHS256) SigningMethodHS256 ''h.c'' ''k3y'' (secret sample_jah)"
    by (simp add: sample_defs)
  have bearer: "Header_Get (bearer_request ''Bearer h.c.k3y'') ''Authorization'' = ''Bearer '' @ ''h.c.k3y''"
    by (simp add: sample_defs Header_Get_def)
  note rt = jwt_Login_AuthRequest_roundtrip [OF form user pass sign parse same verify bearer]
  show ?thesis
    using rt [of empty_response "\<lparr>tParse = 1000, tNow = 1001, tValid1 = 1002, tValid2 = 173800\<rparr>"]
      rt [of empty_response "\<lparr>tParse = 1000, tNow = 173801, tValid1 = 1002, tValid2 = 1003\<rparr>"]
    by (simp add: empty_response_def)
qed

text \<open>
  \<^bold>\<open>C3,\<close> as stated, fails: the session identifier is encoded with the standard
  alphabet, not a web-safe one. A draw whose first byte is 255 gives an identifier that
  starts with \<^verbatim>\<open>/\<close>.
\<close>

theorem cookie_Login_web_safe_counterexample:
  "\<not> webSafe (Value (hd (set_cookies (snd (cookieAuthHandler_Login
      \<lparr>cah_lgr = Some (Logger 0), cah_user = ''admin'', cah_pass = ''hunter2'', cookies = Map.empty\<rparr>
      \<lparr>status = None, body = '''', set_cookies = []\<rparr>
      \<lparr>Header = Map.empty, URL_Query = Map.empty, Cookies = [], ParseForm = None,
        Form = [''username'' \<mapsto> [''admin''], ''password'' \<mapsto> [''hunter2'']]\<rparr>
      0 \<lparr>written = 255 # 0 # 0 # replicate 29 0, n_read = 32, read_err = None\<rparr> 0 [])))))"
  by (simp add: cookieAuthHandler_Login_def randBase64_sample EncodeToString_slash not_webSafe_slash FormValue_def
        userFormValue_def passFormValue_def http_SetCookie_def Let_def del: StdEncoding_EncodeToString.simps)

text \<open>
  \<^bold>\<open>C3,\<close> amended. \<open>Login\<close> of the cookie handler with the configured user name and
  password and a successful draw: the identifier \<open>ck\<close> is the standard base64 text
  (alphabet with \<^verbatim>\<open>+\<close> and \<^verbatim>\<open>/\<close>, padded with \<^verbatim>\<open>=\<close>) of the 32 bytes drawn, 44
  characters long; it is entered in the session map with the expiry \<open>now1\<close> plus 48 hours;
  then, the sweep visiting every key of the map, exactly the entries whose expiry is before
  the second clock reading \<open>now2\<close> are deleted; nothing else of the handler changes; and
  the response gets one cookie \<^verbatim>\<open>_gravauth\<close> with that identifier, the same expiry and
  the path \<^verbatim>\<open>/\<close>.
\<close>

theorem cookie_Login_spec:
  assumes form: "ParseForm r = None"
    and user: "FormValue r userFormValue = cah_user cah"
    and pass: "FormValue r passFormValue = cah_pass cah"
    and draw: "randBase64 32 rd = Inr ck"
    and range: "dom ((cookies cah)(ck \<mapsto> now1 + jwtDuration)) \<subseteq> set ks"
  shows "ck = StdEncoding_EncodeToString (take 32 (written rd @ replicate 32 0)) \<and>
         length ck = 44 \<and> stdAlphabet ck \<and>
         jwtDuration = 48 * 3600 * 1000000000 \<and>
         cookies (fst (cookieAuthHandler_Login cah w r now1 rd now2 ks)) =
           (\<lambda>k. case ((cookies cah)(ck \<mapsto> now1 + jwtDuration)) k of
                   None \<Rightarrow> None
                 | Some v \<Rightarrow> if v < now2 then None else Some v) \<and>
         fst (cookieAuthHandler_Login cah w r now1 rd now2 ks) =
           cah\<lparr>cookies := cookies (fst (cookieAuthHandler_Login cah w r now1 rd now2 ks))\<rparr> \<and>
         snd (cookieAuthHandler_Login cah w r now1 rd now2 ks) =
           w\<lparr>set_cookies := set_cookies w @
                [\<lparr>Name = ''_gravauth'', Value = ck, Expires = now1 + jwtDuration, Path = ''/''\<rparr>]\<rparr>"
proof -
  from randBase64_Inr [OF draw]
  have ck: "ck = StdEncoding_EncodeToString (take 32 (written rd @ replicate 32 0))"
    by simp
  have len: "length ck = 44"
    unfolding ck length_EncodeToString by simp
  have alpha: "stdAlphabet ck"
    unfolding ck by (rule stdAlphabet_EncodeToString)
  have dur: "jwtDuration = 48 * 3600 * 1000000000"
    by (simp add: jwtDuration_def time_Hour_def)
  have res: "cookieAuthHandler_Login cah w r now1 rd now2 ks =
      (cah\<lparr>cookies := sweep now2 ks ((cookies cah)(ck \<mapsto> now1 + jwtDuration))\<rparr>,
       http_SetCookie w \<lparr>Name = cookieName, Value = ck, Expires = now1 + jwtDuration, Path = ''/''\<rparr>)"
    using form user pass draw
    by (simp add: cookieAuthHandler_Login_def Let_def time_Add_def)
  have sw: "sweep now2 ks ((cookies cah)(ck \<mapsto> now1 + jwtDuration)) =
      (\<lambda>k. case ((cookies cah)(ck \<mapsto> now1 + jwtDuration)) k of
                   None \<Rightarrow> None
                 | Some v \<Rightarrow> if v < now2 then None else Some v)"
  proof
    fix k
    show "sweep now2 ks ((cookies cah)(ck \<mapsto> now1 + jwtDuration)) k =
      (case ((cookies cah)(ck \<mapsto> now1 + jwtDuration)) k of
                   None \<Rightarrow> None
                 | Some v \<Rightarrow> if v < now2 then None else Some v)"
      using range by (auto simp: sweep_lookup split: option.splits)
  qed
  show ?thesis
    using ck len alpha dur sw by (simp add: res http_SetCookie_def cookieName_def)
qed

text \<open>
  A login into a map with one expired and one live session.
\<close>

theorem cookie_Login_spec_witness:
  "length sample_id = 44 \<and>
   cookies (fst (cookieAuthHandler_Login sample_cah empty_response login_request 100 sample_draw 101
                   [''live'', sample_id, ''old''])) ''old'' = None \<and>
   cookies (fst (cookieAuthHandler_Login sample_cah empty_response login_request 100 sample_draw 101
                   [''live'', sample_id, ''old''])) ''live'' = Some 500 \<and>
   cookies (fst (cookieAuthHandler_Login sample_cah empty_response login_request 100 sample_draw 101
                   [''live'', sample_id, ''old''])) sample_id = Some (100 + 172800000000000) \<and>
   set_cookies (snd (cookieAuthHandler_Login sample_cah empty_response login_request 100 sample_draw 101
                   [''live'', sample_id, ''old''])) =
     [\<lparr>Name = ''_gravauth'', Value = sample_id, Expires = 100 + 172800000000000, Path = ''/''\<rparr>]"
proof -
  have form: "ParseForm login_request = None"
    and user: "FormValue login_request userFormValue = cah_user sample_cah"
    and pass: "FormValue login_request passFormValue = cah_pass sample_cah"
    by (simp_all add: login_request_def sample_cah_def FormValue_def userFormValue_def passFormValue_def)
  have draw: "randBase64 32 sample_draw = Inr sample_id"
    by (simp add: sample_draw_def sample_id_def randBase64_sample)
  have range: "dom ((cookies sample_cah)(sample_id \<mapsto> 100 + jwtDuration)) \<subseteq> set [''live'', sample_id, ''old'']"
    by (auto simp: sample_cah_def split: if_splits)
  have id: "sample_id \<noteq> ''old''" "sample_id \<noteq> ''live''"
    by (simp_all add: sample_id_def EncodeToString_slash del: StdEncoding_EncodeToString.simps)
  show ?thesis
    using cookie_Login_spec [OF form user pass draw range, of empty_response 101] id
    by (simp add: sample_cah_def empty_response_def jwtDuration_def time_Hour_def)
qed

text \<open>
  \<^bold>\<open>C4.\<close> \<open>AuthRequest\<close> of the JWT handler on a request that presents a token the
  library can decode: the result is an error whenever the token's method is not of the
  HMAC family, or its issuer is not \<^verbatim>\<open>gravwell\<close>, or the handler's clock reading \<open>t\<close>
  is before not-before or after the expiry; and when the result is nil, the signature
  verifies under the handler's secret and all three checks pass.
\<close>

theorem jwt_AuthRequest_checks:
  assumes "getJWTToken r = Inr ss" and "ParseUnverified lib ss = Inr (tok, sstr, sig)"
  shows "(\<not> isHMAC (Method tok) \<or> Issuer (Claims tok) \<noteq> issuer \<or>
            tNow clk < NotBefore (Claims tok) \<or> ExpiresAt (Claims tok) < tNow clk \<longrightarrow>
            jwtAuthHandler_AuthRequest lib bah r clk \<noteq> None) \<and>
         (jwtAuthHandler_AuthRequest lib bah r clk = None \<longrightarrow>
            Verify lib (Method tok) sstr sig (secret bah) \<and> isHMAC (Method tok) \<and>
            Issuer (Claims tok) = issuer \<and>
            NotBefore (Claims tok) \<le> tNow clk \<and> tNow clk \<le> ExpiresAt (Claims tok))"
  using jwt_AuthRequest_None_iff [OF assms, of bah clk] by auto

text \<open>
  A token with an RSA method, a token used before its time, and an accepted token.
\<close>

theorem jwt_AuthRequest_checks_witness:
  "jwtAuthHandler_AuthRequest (sample_lib (SigningMethodRSA ''RS256'')) sample_jah (bearer_request ''Bearer h.c.k3y'')
     \<lparr>tParse = 1000, tNow = 1001, tValid1 = 1002, tValid2 = 1003\<rparr> \<noteq> None \<and>
   jwtAuthHandler_AuthRequest (sample_lib SigningMethodHS256) sample_jah (bearer_request ''Bearer h.c.k3y'')
     \<lparr>tParse = 1000, tNow = 999, tValid1 = 1002, tValid2 = 1003\<rparr> \<noteq> None \<and>
   (jwtAuthHandler_AuthRequest (sample_lib SigningMethodHS256) sample_jah (bearer_request ''Bearer h.c.k3y'')
     \<lparr>tParse = 1000, tNow = 1001, tValid1 = 1002, tValid2 = 1003\<rparr> = None \<and>
    Verify (sample_lib SigningMethodHS256) SigningMethodHS256 ''h.c'' ''k3y'' (secret sample_jah))"
proof -
  have tok: "getJWTToken (bearer_request ''Bearer h.c.k3y'') = Inr ''h.c.k3y''"
    by (simp add: getJWTToken_def getAuthToken_def Header_Get_def bearer_request_def
          strings_HasPrefix_def strings_TrimPrefix_def)
  have parse: "ParseUnverified (sample_lib m) ''h.c.k3y'' =
      Inr (\<lparr>Raw = ''h.c.k3y'', Method = m, Claims = sample_claims, Signature = '''', Valid = False\<rparr>,
           ''h.c'', ''k3y'')" for m
    by (simp add: sample_lib_def)
  have good: "jwtAuthHandler_AuthRequest (sample_lib SigningMethodHS256) sample_jah (bearer_request ''Bearer h.c.k3y'')
     \<lparr>tParse = 1000, tNow = 1001, tValid1 = 1002, tValid2 = 1003\<rparr> = None"
    by (simp add: jwtAuthHandler_AuthRequest_def tok jwt_ParseWithClaims_def parse secretParser_def
          SigningMethodHS256_def StandardClaims_Valid_def StandardClaims_flags_def verifyExp_def
          verifyIat_def verifyNbf_def sample_claims_def sample_jah_def issuer_def Let_def)
      (simp add: sample_lib_def)
  show ?thesis
    using jwt_AuthRequest_checks [OF tok parse, of "SigningMethodRSA ''RS256''"
            "\<lparr>tParse = 1000, tNow = 1001, tValid1 = 1002, tValid2 = 1003\<rparr>" sample_jah]
      jwt_AuthRequest_checks [OF tok parse, of SigningMethodHS256
            "\<lparr>tParse = 1000, tNow = 999, tValid1 = 1002, tValid2 = 1003\<rparr>" sample_jah]
      jwt_AuthRequest_checks [OF tok parse, of SigningMethodHS256
            "\<lparr>tParse = 1000, tNow = 1001, tValid1 = 1002, tValid2 = 1003\<rparr>" sample_jah]
      good
    by (simp add: isHMAC_def sample_claims_def SigningMethodHS256_def)
qed

text \<open>
  \<^bold>\<open>C5.\<close> The claim is that \<open>Validate\<close> fails with \<open>ErrInvalidAuthType\<close> on a tag
  that is not recognised. The \<^verbatim>\<open>switch\<close> of \<open>Validate\<close> has no \<^verbatim>\<open>default\<close>: on the
  tag \<^verbatim>\<open>kerberos\<close> it returns not enabled and no error, whatever the URL parser does.
\<close>

theorem Validate_unrecognized_tag:
  "Validate url_Parse (sample_auth ''kerberos'' '''') = (sample_auth ''kerberos'' '''', False, None)"
  by (simp add: Validate_def sample_auth_def authType_defs)

text \<open>
  \<^bold>\<open>C6.\<close> The claim is that \<open>parseAuthType\<close> accepts each of the six tags. Its
  \<^verbatim>\<open>switch\<close> has no case for \<open>preToken\<close> and \<open>preParam\<close>: both tags reach the
  \<^verbatim>\<open>default\<close> and come back as \<^verbatim>\<open>none\<close> with \<open>ErrInvalidAuthType\<close>, while
  \<^verbatim>\<open>JWT\<close> inside spaces is trimmed, lowered and accepted.
\<close>

theorem parseAuthType_preshared:
  "parseAuthType ''preshared-token'' = (''none'', Some ErrInvalidAuthType) \<and>
   parseAuthType ''preshared-parameter'' = (''none'', Some ErrInvalidAuthType) \<and>
   parseAuthType '' JWT '' = (''jwt'', None)"
  by code_simp

text \<open>
  \<^bold>\<open>C7,\<close> as stated, fails: when the only instance of the parameter is empty,
  \<open>getParamToken\<close> returns the empty string without error, and \<open>AuthRequest\<close> answers
  "Unauthorized", not a missing-parameter error.
\<close>

theorem preParam_AuthRequest_all_empty_counterexample:
  "preParamHandler_AuthRequest
     \<lparr>lgr = Some (Logger 0), tokName = ''token'', tokValue = ''s3cret''\<rparr>
     \<lparr>Header = Map.empty, URL_Query = [''token'' \<mapsto> ['''']], Cookies = [],
       ParseForm = None, Form = Map.empty\<rparr> = Some ErrUnauthorized"
  by (simp add: preParamHandler_AuthRequest_def getParamToken_def)

text \<open>
  \<^bold>\<open>C7,\<close> amended. For every handler made by \<open>newPresharedParamHandler\<close>:
  \<open>AuthRequest\<close> fails with a missing-parameter error exactly when the query has no
  instance of the configured parameter; when the instances are empty strings up to a first
  non-empty one \<open>k\<close>, it returns nil if \<open>k\<close> is the configured value and "Unauthorized"
  otherwise; when there are instances and all of them are empty, it returns "Unauthorized".
\<close>

theorem preParam_AuthRequest_spec:
  assumes "newPresharedParamHandler name val l = (Some (PreParamHandler pth), err)"
  shows "((\<exists>e. preParamHandler_AuthRequest pth r = Some (MissingParameter e)) \<longleftrightarrow>
            (URL_Query r (tokName pth) = None \<or> URL_Query r (tokName pth) = Some [])) \<and>
         (URL_Query r (tokName pth) = Some (pre @ k # rest) \<and> (\<forall>x\<in>set pre. x = '''') \<and> k \<noteq> '''' \<longrightarrow>
            preParamHandler_AuthRequest pth r = (if k = tokValue pth then None else Some ErrUnauthorized)) \<and>
         (URL_Query r (tokName pth) = Some keys \<and> keys \<noteq> [] \<and> (\<forall>x\<in>set keys. x = '''') \<longrightarrow>
            preParamHandler_AuthRequest pth r = Some ErrUnauthorized)"
proof -
  from assms have ne: "tokName pth \<noteq> ''''" and nev: "tokValue pth \<noteq> ''''"
    by (auto simp: newPresharedParamHandler_def split: if_splits)
  have a: "(\<exists>e. preParamHandler_AuthRequest pth r = Some (MissingParameter e)) \<longleftrightarrow>
            (URL_Query r (tokName pth) = None \<or> URL_Query r (tokName pth) = Some [])"
    using ne by (auto simp: preParamHandler_AuthRequest_def getParamToken_def split: option.splits if_splits)
  have b: "URL_Query r (tokName pth) = Some (pre @ k # rest) \<and> (\<forall>x\<in>set pre. x = '''') \<and> k \<noteq> '''' \<longrightarrow>
            preParamHandler_AuthRequest pth r = (if k = tokValue pth then None else Some ErrUnauthorized)"
    using ne by (auto simp: preParamHandler_AuthRequest_def getParamToken_def firstNonEmpty_skip)
  have c: "URL_Query r (tokName pth) = Some keys \<and> keys \<noteq> [] \<and> (\<forall>x\<in>set keys. x = '''') \<longrightarrow>
            preParamHandler_AuthRequest pth r = Some ErrUnauthorized"
    using ne nev by (auto simp: preParamHandler_AuthRequest_def getParamToken_def firstNonEmpty_all_empty)
  from a b c show ?thesis by blast
qed

text \<open>
  An empty first value before the right one, before a wrong one, only empty values, no value.
\<close>

theorem preParam_AuthRequest_spec_witness:
  "preParamHandler_AuthRequest sample_pth (query_request [''token'' \<mapsto> ['''', ''s3cret'']]) = None \<and>
   preParamHandler_AuthRequest sample_pth (query_request [''token'' \<mapsto> ['''', ''guess'']]) = Some ErrUnauthorized \<and>
   preParamHandler_AuthRequest sample_pth (query_request [''token'' \<mapsto> ['''', '''']]) = Some ErrUnauthorized \<and>
   (\<exists>e. preParamHandler_AuthRequest sample_pth (query_request Map.empty) = Some (MissingParameter e))"
proof -
  have h: "newPresharedParamHandler ''token'' ''s3cret'' (Some (Logger 0)) = (Some (PreParamHandler sample_pth), None)"
    by (simp add: newPresharedParamHandler_def sample_pth_def)
  show ?thesis
    using preParam_AuthRequest_spec [OF h, where r = "query_request [''token'' \<mapsto> ['''', ''s3cret'']]"
        and pre = "['''']" and k = "''s3cret''" and rest = "[]" and keys = "[]"]
      preParam_AuthRequest_spec [OF h, where r = "query_request [''token'' \<mapsto> ['''', ''guess'']]"
        and pre = "['''']" and k = "''guess''" and rest = "[]" and keys = "[]"]
      preParam_AuthRequest_spec [OF h, where r = "query_request [''token'' \<mapsto> ['''', '''']]"
        and keys = "['''', '''']" and pre = "[]" and k = "''''" and rest = "['''']"]
      preParam_AuthRequest_spec [OF h, where r = "query_request Map.empty"
        and keys = "[]" and pre = "[]" and k = "''''" and rest = "[]"]
    by (simp add: query_request_def sample_pth_def)
qed

text \<open>
  \<^bold>\<open>C8.\<close> For every handler made by \<open>newPresharedTokenHandler\<close>: when the request
  has no \<^verbatim>\<open>Authorization\<close> header, or its first value does not start with the
  configured name and one space, \<open>AuthRequest\<close> returns one of the two errors of
  \<open>getAuthToken\<close> ("Missing Authorization header value", "invalid authorization token
  name"); when the value is the name, one space and \<open>rest\<close>, it returns nil if \<open>rest\<close>
  is the configured value, byte for byte, and "Unauthorized" otherwise.
\<close>

theorem preToken_AuthRequest_spec:
  assumes "newPresharedTokenHandler name val l = (Some (PreTokenHandler pth), err)"
  shows "(Header r ''Authorization'' = None \<longrightarrow>
            preTokenHandler_AuthRequest pth r = Some MissingAuthorizationHeader) \<and>
         (\<not> (\<exists>rest. Header_Get r ''Authorization'' = tokName pth @ '' '' @ rest) \<longrightarrow>
            preTokenHandler_AuthRequest pth r = Some MissingAuthorizationHeader \<or>
            preTokenHandler_AuthRequest pth r = Some InvalidAuthorizationTokenName) \<and>
         (Header_Get r ''Authorization'' = tokName pth @ '' '' @ rest \<longrightarrow>
            preTokenHandler_AuthRequest pth r = (if rest = tokValue pth then None else Some ErrUnauthorized))"
proof -
  from assms have ne: "tokName pth \<noteq> ''''"
    by (auto simp: newPresharedTokenHandler_def split: if_splits)
  have a: "Header r ''Authorization'' = None \<longrightarrow>
            preTokenHandler_AuthRequest pth r = Some MissingAuthorizationHeader"
    using ne by (simp add: preTokenHandler_AuthRequest_def getAuthToken_def Header_Get_def)
  have b: "\<not> (\<exists>rest. Header_Get r ''Authorization'' = tokName pth @ '' '' @ rest) \<longrightarrow>
            preTokenHandler_AuthRequest pth r = Some MissingAuthorizationHeader \<or>
            preTokenHandler_AuthRequest pth r = Some InvalidAuthorizationTokenName"
    using getAuthToken_no_prefix [OF ne, of r]
    by (auto simp: preTokenHandler_AuthRequest_def)
  have c: "Header_Get r ''Authorization'' = tokName pth @ '' '' @ rest \<longrightarrow>
            preTokenHandler_AuthRequest pth r = (if rest = tokValue pth then None else Some ErrUnauthorized)"
    using getAuthToken_prefix [OF ne, of r]
    by (auto simp: preTokenHandler_AuthRequest_def)
  from a b c show ?thesis by blast
qed

text \<open>
  The right token, the right token with a trailing space, no header, another scheme.
\<close>

theorem preToken_AuthRequest_spec_witness:
  "preTokenHandler_AuthRequest sample_pth (bearer_request ''token s3cret'') = None \<and>
   preTokenHandler_AuthRequest sample_pth (bearer_request ''token s3cret '') = Some ErrUnauthorized \<and>
   preTokenHandler_AuthRequest sample_pth (query_request Map.empty) = Some MissingAuthorizationHeader \<and>
   (preTokenHandler_AuthRequest sample_pth (bearer_request ''Bearer s3cret'') = Some MissingAuthorizationHeader \<or>
    preTokenHandler_AuthRequest sample_pth (bearer_request ''Bearer s3cret'') = Some InvalidAuthorizationTokenName)"
proof -
  have h: "newPresharedTokenHandler ''token'' ''s3cret'' (Some (Logger 0)) = (Some (PreTokenHandler sample_pth), None)"
    by (simp add: newPresharedTokenHandler_def sample_pth_def)
  have no: "\<not> (\<exists>rest. Header_Get (bearer_request ''Bearer s3cret'') ''Authorization'' = tokName sample_pth @ '' '' @ rest)"
    by (simp add: bearer_request_def Header_Get_def sample_pth_def)
  show ?thesis
    using preToken_AuthRequest_spec [OF h, where r = "bearer_request ''token s3cret''" and rest = "''s3cret''"]
      preToken_AuthRequest_spec [OF h, where r = "bearer_request ''token s3cret ''" and rest = "''s3cret ''"]
      preToken_AuthRequest_spec [OF h, where r = "query_request Map.empty" and rest = "''''"]
      preToken_AuthRequest_spec [OF h, where r = "bearer_request ''Bearer s3cret''" and rest = "''''"] no
    by (simp add: bearer_request_def query_request_def Header_Get_def sample_pth_def)
qed

text \<open>
  \<^bold>\<open>C9.\<close> \<open>Validate\<close> returns the record it was given, or, only when the tag is
  \<open>preToken\<close> or \<open>preParam\<close> and \<open>TokenName\<close> is empty, that record with
  \<open>TokenName\<close> set to \<^verbatim>\<open>Bearer\<close>; the other five fields are never changed.
\<close>

theorem Validate_frame:
  "(fst (Validate url_Parse a) = a \<or>
     ((AuthType a = preToken \<or> AuthType a = preParam) \<and> TokenName a = '''' \<and>
      fst (Validate url_Parse a) = a\<lparr>TokenName := ''Bearer''\<rparr>)) \<and>
   AuthType (fst (Validate url_Parse a)) = AuthType a \<and>
   Username (fst (Validate url_Parse a)) = Username a \<and>
   Password (fst (Validate url_Parse a)) = Password a \<and>
   LoginURL (fst (Validate url_Parse a)) = LoginURL a \<and>
   TokenValue (fst (Validate url_Parse a)) = TokenValue a"
  by (simp add: Validate_def Let_def defaultTokenName_def split: option.splits)

text \<open>
  A preshared tag with an empty name, one with a name, and another tag.
\<close>

theorem Validate_frame_witness:
  "fst (Validate (\<lambda>u. None) (sample_auth ''preshared-token'' '''')) = sample_auth ''preshared-token'' ''Bearer'' \<and>
   fst (Validate (\<lambda>u. None) (sample_auth ''preshared-parameter'' ''key'')) = sample_auth ''preshared-parameter'' ''key'' \<and>
   fst (Validate (\<lambda>u. None) (sample_auth ''jwt'' '''')) = sample_auth ''jwt'' ''''"
  using Validate_frame [of "\<lambda>u. None" "sample_auth ''preshared-token'' ''''"]
    Validate_frame [of "\<lambda>u. None" "sample_auth ''preshared-parameter'' ''key''"]
    Validate_frame [of "\<lambda>u. None" "sample_auth ''jwt'' ''''"]
  by (simp add: sample_auth_def authType_defs Validate_def Let_def defaultTokenName_def)

text \<open>
  \<^bold>\<open>C10.\<close> \<open>NewAuthHandler\<close> with a nil logger returns the error "Nil logger", no
  handler and an empty URL for every configuration, the empty tag and the tag
  \<^verbatim>\<open>none\<close> included; with the empty tag or the tag \<^verbatim>\<open>none\<close> and a logger it returns
  an empty URL, no handler and no error.
\<close>

theorem NewAuthHandler_nil_logger:
  "NewAuthHandler a None rd = ('''', None, Some NilLogger) \<and>
   NewAuthHandler (a\<lparr>AuthType := ''''\<rparr>) None rd = ('''', None, Some NilLogger) \<and>
   NewAuthHandler (a\<lparr>AuthType := ''none''\<rparr>) None rd = ('''', None, Some NilLogger) \<and>
   NewAuthHandler (a\<lparr>AuthType := ''''\<rparr>) (Some lg) rd = ('''', None, None) \<and>
   NewAuthHandler (a\<lparr>AuthType := ''none''\<rparr>) (Some lg) rd = ('''', None, None)"
  by (simp add: NewAuthHandler_def u_none_def none_def)

text \<open>
  The cookie tag, the empty tag and the tag \<^verbatim>\<open>none\<close> without a logger; the empty tag
  and the tag \<^verbatim>\<open>none\<close> with one.
\<close>

theorem NewAuthHandler_nil_logger_witness:
  "NewAuthHandler (sample_auth ''cookie'' '''') None sample_draw = ('''', None, Some NilLogger) \<and>
   NewAuthHandler (sample_auth '''' '''') None sample_draw = ('''', None, Some NilLogger) \<and>
   NewAuthHandler (sample_auth ''none'' '''') None sample_draw = ('''', None, Some NilLogger) \<and>
   NewAuthHandler (sample_auth '''' '''') (Some (Logger 0)) sample_draw = ('''', None, None) \<and>
   NewAuthHandler (sample_auth ''none'' '''') (Some (Logger 0)) sample_draw = ('''', None, None)"
  using NewAuthHandler_nil_logger [of "sample_auth ''cookie'' ''''" sample_draw "Logger 0"]
    NewAuthHandler_nil_logger [of "sample_auth '''' ''''" sample_draw "Logger 0"]
    NewAuthHandler_nil_logger [of "sample_auth ''none'' ''''" sample_draw "Logger 0"]
  by (simp add: sample_auth_def)

end
